theory Spec2Isabelle
  imports Complex_Main "HOL-Library.Word"
begin

unbundle bit_operations_syntax

section \<open>Errors, bytes and arrays\<close>

text \<open>
  The exceptions the two scripts can raise, as values. \<open>AssertionError\<close> is what the
  \<^verbatim>\<open>assert\<close> of \<^verbatim>\<open>save_codebook\<close> raises, \<open>StructError\<close> is \<^verbatim>\<open>struct.error\<close>,
  \<open>ValueError\<close> is raised by \<^verbatim>\<open>load_codebook\<close> itself and by numpy
  (\<^verbatim>\<open>np.stack\<close>, \<^verbatim>\<open>np.frombuffer\<close>, \<^verbatim>\<open>reshape\<close>, \<^verbatim>\<open>RandomState.choice\<close>).
\<close>

datatype error =
    AssertionError
  | StructError
  | ValueError
  | FileNotFoundError
  | ZeroDivisionError

type_synonym byte = "8 word"

text \<open>A 32-bit float is kept as its IEEE-754 binary32 bit pattern.\<close>

type_synonym f32 = "32 word"

text \<open>
  A two-dimensional numpy array: its shape and its elements in row-major (C) order.
  An array with no rows still has a column count.
\<close>

record 'a ndarray =
  shape0 :: nat
  shape1 :: nat
  flat :: "'a list"

definition wf_ndarray :: "'a ndarray \<Rightarrow> bool" where
  "wf_ndarray a = (length (flat a) = shape0 a * shape1 a)"

text \<open>The file system: the content of each path that exists.\<close>

type_synonym fs = "string \<rightharpoonup> byte list"

section \<open>Constants of \<^verbatim>\<open>codebook_init.py\<close> and \<^verbatim>\<open>train_translator.py\<close>\<close>

definition ascii :: "string \<Rightarrow> byte list" where
  "ascii s = map (\<lambda>c. word_of_nat (of_char c)) s"

definition MAGIC :: "byte list" where
  "MAGIC = ascii ''VXCB''"

definition FORMAT_VERSION :: nat where
  "FORMAT_VERSION = 1"

definition TARGET_DIM :: nat where
  "TARGET_DIM = 256"

definition DEFAULT_K :: nat where
  "DEFAULT_K = 65536"

definition SLOT_DIM :: nat where
  "SLOT_DIM = 256"

section \<open>\<^verbatim>\<open>struct.pack("<I", v)\<close>, \<^verbatim>\<open>struct.unpack("<I", b)\<close> and \<^verbatim>\<open>tobytes\<close>\<close>

definition le32 :: "32 word \<Rightarrow> byte list" where
  "le32 w = [ucast w, ucast (drop_bit 8 w), ucast (drop_bit 16 w), ucast (drop_bit 24 w)]"

fun from_le32 :: "byte list \<Rightarrow> 32 word" where
  "from_le32 [b0, b1, b2, b3] =
     ucast b0 OR push_bit 8 (ucast b1) OR push_bit 16 (ucast b2) OR push_bit 24 (ucast b3)"
| "from_le32 _ = 0"

text \<open>\<^verbatim>\<open>struct.pack("<I", v)\<close> raises \<^verbatim>\<open>struct.error\<close> when \<open>v\<close> does not fit 32 bits.\<close>

definition pack_I :: "nat \<Rightarrow> error + byte list" where
  "pack_I v = (if v < 2 ^ 32 then Inr (le32 (word_of_nat v)) else Inl StructError)"

text \<open>\<^verbatim>\<open>struct.unpack("<I", b)[0]\<close> raises \<^verbatim>\<open>struct.error\<close> unless \<open>b\<close> has 4 bytes.\<close>

definition unpack_I :: "byte list \<Rightarrow> error + nat" where
  "unpack_I bs = (if length bs = 4 then Inr (unat (from_le32 bs)) else Inl StructError)"

text \<open>
  \<^verbatim>\<open>centroids.astype("<f4").tobytes()\<close>: on an array of 32-bit floats the cast keeps
  every bit pattern, and \<^verbatim>\<open>tobytes\<close> lays the elements out in row-major order.
\<close>

definition tobytes :: "f32 ndarray \<Rightarrow> byte list" where
  "tobytes a = concat (map le32 (flat a))"

fun chunks4 :: "byte list \<Rightarrow> byte list list" where
  "chunks4 (b0 # b1 # b2 # b3 # bs) = [b0, b1, b2, b3] # chunks4 bs"
| "chunks4 _ = []"

text \<open>
  \<^verbatim>\<open>np.frombuffer(buf, dtype=np.float32)\<close> on a little-endian host: a \<^verbatim>\<open>ValueError\<close>
  when the buffer size is not a multiple of the element size.
\<close>

definition frombuffer :: "byte list \<Rightarrow> error + f32 list" where
  "frombuffer buf =
     (if length buf mod 4 = 0 then Inr (map from_le32 (chunks4 buf)) else Inl ValueError)"

text \<open>\<^verbatim>\<open>data.reshape(r, c)\<close>: a \<^verbatim>\<open>ValueError\<close> when the sizes differ.\<close>

definition reshape :: "'a list \<Rightarrow> nat \<Rightarrow> nat \<Rightarrow> error + 'a ndarray" where
  "reshape xs r c =
     (if length xs = r * c then Inr \<lparr>shape0 = r, shape1 = c, flat = xs\<rparr> else Inl ValueError)"

section \<open>\<^verbatim>\<open>save_codebook\<close> (codebook_init.py)\<close>

text \<open>
  The source's \<open>dim\<close> is written \<open>dim'\<close>.
  The assertion comes before the file is opened. \<^verbatim>\<open>open(path, "wb")\<close> creates or
  truncates the file, and each \<^verbatim>\<open>f.write\<close> appends; an exception inside the
  \<^verbatim>\<open>with\<close> block leaves what was written so far. The size report printed at the end
  has no effect on the file.
\<close>

definition save_codebook :: "f32 ndarray \<Rightarrow> string \<Rightarrow> fs \<Rightarrow> (error + unit) \<times> fs" where
  "save_codebook centroids path fs =
     (let entry_count = shape0 centroids; dim' = shape1 centroids in
      if dim' \<noteq> TARGET_DIM then (Inl AssertionError, fs)
      else
        (case pack_I FORMAT_VERSION of
           Inl e \<Rightarrow> (Inl e, fs(path \<mapsto> MAGIC))
         | Inr v \<Rightarrow>
             (case pack_I entry_count of
                Inl e \<Rightarrow> (Inl e, fs(path \<mapsto> MAGIC @ v))
              | Inr ec \<Rightarrow>
                  (case pack_I dim' of
                     Inl e \<Rightarrow> (Inl e, fs(path \<mapsto> MAGIC @ v @ ec))
                   | Inr d \<Rightarrow>
                       (Inr (), fs(path \<mapsto> MAGIC @ v @ ec @ d @ tobytes centroids))))))"

section \<open>\<^verbatim>\<open>load_codebook\<close> (train_translator.py)\<close>

text \<open>
  \<^verbatim>\<open>f.read(n)\<close> returns the next \<open>n\<close> bytes, or fewer at the end of the file. The
  version is unpacked and never looked at again. The tensor returned has the shape and
  the elements of the reshaped array.
\<close>

definition load_codebook :: "string \<Rightarrow> fs \<Rightarrow> error + f32 ndarray" where
  "load_codebook path fs =
     (case fs path of
        None \<Rightarrow> Inl FileNotFoundError
      | Some content \<Rightarrow>
          (let magic = take 4 content; r1 = drop 4 content in
           if magic \<noteq> ascii ''VXCB'' then Inl ValueError
           else
             (case unpack_I (take 4 r1) of
                Inl e \<Rightarrow> Inl e
              | Inr version \<Rightarrow>
                  (let r2 = drop 4 r1 in
                   case unpack_I (take 4 r2) of
                     Inl e \<Rightarrow> Inl e
                   | Inr entry_count \<Rightarrow>
                       (let r3 = drop 4 r2 in
                        case unpack_I (take 4 r3) of
                          Inl e \<Rightarrow> Inl e
                        | Inr dim' \<Rightarrow>
                            (let r4 = drop 4 r3 in
                             if dim' \<noteq> SLOT_DIM then Inl ValueError
                             else
                               (case frombuffer (take (entry_count * dim' * 4) r4) of
                                  Inl e \<Rightarrow> Inl e
                                | Inr data \<Rightarrow> reshape data entry_count dim')))))))"

section \<open>The file layout in the words of the format description\<close>

text \<open>
  The four bytes of a 32-bit unsigned integer, least significant first, as numbers.
\<close>

definition spec_u32_le :: "nat \<Rightarrow> nat list" where
  "spec_u32_le n = [n mod 256, n div 256 mod 256, n div 65536 mod 256, n div 16777216 mod 256]"

definition spec_codebook_file :: "f32 ndarray \<Rightarrow> nat list" where
  "spec_codebook_file a =
     [86, 88, 67, 66] @ spec_u32_le 1 @ spec_u32_le (shape0 a) @ spec_u32_le (shape1 a)
       @ concat (map (\<lambda>w. spec_u32_le (unat w)) (flat a))"

section \<open>\<^verbatim>\<open>load_embeddings\<close> (codebook_init.py)\<close>








subsection \<open>The builtin \<^verbatim>\<open>float\<close> on ASCII strings\<close>
















section \<open>\<^verbatim>\<open>kmeans_cluster\<close> (codebook_init.py)\<close>

text \<open>
  numpy's \<^verbatim>\<open>RandomState\<close> and scikit-learn's \<^verbatim>\<open>MiniBatchKMeans\<close> are parameters:
  \<open>'g\<close> is the state of the generator, \<open>'m\<close> the state of the estimator and \<open>'x\<close> a row
  of the data. \<open>permutation g n\<close> is \<^verbatim>\<open>rng.permutation(n)\<close> with the generator's next
  state, \<open>MiniBatchKMeans k b E\<close> the estimator as constructed, \<open>inertia\<close> and
  \<open>cluster_centers\<close> read \<^verbatim>\<open>inertia_\<close> and \<^verbatim>\<open>cluster_centers_\<close>. Inertia values are
  taken as exact rationals. The progress bar and the clock only print.
\<close>

record ('g, 'm, 'x) library =
  RandomState :: "nat \<Rightarrow> 'g"
  permutation :: "'g \<Rightarrow> nat \<Rightarrow> nat list \<times> 'g"
  MiniBatchKMeans :: "nat \<Rightarrow> nat \<Rightarrow> nat \<Rightarrow> 'm"
  partial_fit :: "'m \<Rightarrow> 'x list \<Rightarrow> 'm"
  inertia :: "'m \<Rightarrow> rat"
  cluster_centers :: "'m \<Rightarrow> 'x list"

text \<open>
  \<^verbatim>\<open>rng.choice(n, size=size, replace=False)\<close>: numpy raises \<^verbatim>\<open>ValueError\<close> ("Cannot take
  a larger sample than population when 'replace=False'") when \<open>size > n\<close>, and otherwise
  returns the first \<open>size\<close> entries of \<^verbatim>\<open>permutation(n)\<close>.
\<close>

definition choice ::
  "('g, 'm, 'x) library \<Rightarrow> 'g \<Rightarrow> nat \<Rightarrow> nat \<Rightarrow> error + nat list \<times> 'g" where
  "choice lib rng n size' =
     (if size' > n then Inl ValueError
      else (case permutation lib rng n of (p, rng') \<Rightarrow> Inr (take size' p, rng')))"

text \<open>
  One pass of the epoch loop's body up to the convergence check: a fresh permutation,
  then \<^verbatim>\<open>partial_fit\<close> on \<^verbatim>\<open>data[perm[start:end]]\<close> for each batch.
\<close>

definition run_epoch ::
  "('g, 'm, 'x) library \<Rightarrow> 'x list \<Rightarrow> nat \<Rightarrow> 'g \<times> 'm \<Rightarrow> 'g \<times> 'm" where
  "run_epoch lib data batch_size st =
     (let n = length data;
          batches_per_epoch = max 1 (n div batch_size)
      in case permutation lib (fst st) n of
           (perm, rng') \<Rightarrow>
             (rng',
              fold (\<lambda>b kmeans.
                      let start = b * batch_size;
                          end' = min (start + batch_size) n
                      in partial_fit lib kmeans
                           (map (\<lambda>i. data ! i) (take (end' - start) (drop start perm))))
                [0..<batches_per_epoch] (snd st)))"

text \<open>
  \<^verbatim>\<open>delta = ((prev_inertia - inertia) / prev_inertia * 100) if prev_inertia != float("inf") else 0\<close>,
  with \<open>None\<close> for the initial \<^verbatim>\<open>float("inf")\<close>. Dividing Python floats by zero
  raises \<^verbatim>\<open>ZeroDivisionError\<close>.
\<close>

definition delta :: "rat option \<Rightarrow> rat \<Rightarrow> error + rat" where
  "delta prev_inertia i =
     (case prev_inertia of
        None \<Rightarrow> Inr 0
      | Some p \<Rightarrow> if p = 0 then Inl ZeroDivisionError else Inr ((p - i) / p * 100))"

text \<open>
  \<^verbatim>\<open>for epoch in range(max_iter)\<close>: the first numeric argument counts the epochs still
  to run, \<open>epoch\<close> is the loop variable. The result is the number of epochs that were
  run and the state they left.
\<close>

fun epoch_loop ::
  "('g, 'm, 'x) library \<Rightarrow> 'x list \<Rightarrow> nat \<Rightarrow> nat \<Rightarrow> nat \<Rightarrow> 'g \<times> 'm \<Rightarrow> rat option
     \<Rightarrow> error + nat \<times> ('g \<times> 'm)" where
  "epoch_loop lib data batch_size 0 epoch st prev_inertia = Inr (epoch, st)"
| "epoch_loop lib data batch_size (Suc todo) epoch st prev_inertia =
     (let st' = run_epoch lib data batch_size st in
      if (epoch + 1) mod 10 = 0 then
        (case delta prev_inertia (inertia lib (snd st')) of
           Inl e \<Rightarrow> Inl e
         | Inr d \<Rightarrow>
             if 0 < d \<and> d < 1 / 100 \<and> epoch > 50 then Inr (epoch + 1, st')
             else epoch_loop lib data batch_size todo (epoch + 1) st'
                    (Some (inertia lib (snd st'))))
      else epoch_loop lib data batch_size todo (epoch + 1) st' prev_inertia)"

text \<open>
  The part of \<^verbatim>\<open>kmeans_cluster\<close> before the epoch loop. \<^verbatim>\<open>n // batch_size\<close> raises
  \<^verbatim>\<open>ZeroDivisionError\<close> for a zero batch size.
\<close>

definition kmeans_init ::
  "('g, 'm, 'x) library \<Rightarrow> 'x list \<Rightarrow> nat \<Rightarrow> nat \<Rightarrow> nat \<Rightarrow> error + 'g \<times> 'm" where
  "kmeans_init lib data k batch_size max_iter =
     (let kmeans = MiniBatchKMeans lib k batch_size max_iter;
          n = length data;
          rng = RandomState lib 42
      in if batch_size = 0 then Inl ZeroDivisionError
         else
           (let init_size = max k batch_size
            in case choice lib rng n init_size of
                 Inl e \<Rightarrow> Inl e
               | Inr (indices, rng') \<Rightarrow>
                   Inr (rng', partial_fit lib kmeans (map (\<lambda>i. data ! i) indices))))"

definition kmeans_run ::
  "('g, 'm, 'x) library \<Rightarrow> 'x list \<Rightarrow> nat \<Rightarrow> nat \<Rightarrow> nat \<Rightarrow> error + nat \<times> ('g \<times> 'm)" where
  "kmeans_run lib data k batch_size max_iter =
     (case kmeans_init lib data k batch_size max_iter of
        Inl e \<Rightarrow> Inl e
      | Inr st \<Rightarrow> epoch_loop lib data batch_size max_iter 0 st None)"

definition kmeans_cluster ::
  "('g, 'm, 'x) library \<Rightarrow> 'x list \<Rightarrow> nat \<Rightarrow> nat \<Rightarrow> nat \<Rightarrow> error + 'x list" where
  "kmeans_cluster lib data k batch_size max_iter =
     (case kmeans_run lib data k batch_size max_iter of
        Inl e \<Rightarrow> Inl e
      | Inr (epochs, st) \<Rightarrow> Inr (cluster_centers lib (snd st)))"

subsection \<open>The convergence policy\<close>







section \<open>Facts about the byte encodings\<close>

lemma length_le32: "length (le32 w) = 4"
  by (simp add: le32_def)

lemma from_le32_le32: "from_le32 (le32 w) = w"
  unfolding le32_def from_le32.simps
  apply (rule bit_word_eqI)
  apply (auto simp add: bit_simps)
  subgoal for n by (cases "n < 24") auto
  done

lemma unat_word_of_nat32: "n < 2 ^ 32 \<Longrightarrow> unat (word_of_nat n :: 32 word) = n"
  by (simp add: unat_of_nat)

lemma chunks4_concat_le32: "chunks4 (concat (map le32 ws)) = map le32 ws"
  by (induction ws) (simp_all add: le32_def)

lemma length_chunks4: "length (chunks4 bs) = length bs div 4"
  by (induction bs rule: chunks4.induct) simp_all

lemma length_concat_le32: "length (concat (map le32 ws)) = 4 * length ws"
  by (induction ws) (simp_all add: le32_def)

lemma map_unat_le32: "map unat (le32 w) = spec_u32_le (unat w)"
  by (simp add: le32_def spec_u32_le_def unsigned_ucast_eq unat_drop_bit_eq drop_bit_eq_div
      take_bit_eq_mod unat_div)

lemma unpack_I_le32: "unpack_I (le32 w) = Inr (unat w)"
  by (simp add: unpack_I_def length_le32 from_le32_le32)

lemma length_ascii_VXCB: "length (ascii ''VXCB'') = 4"
  by (simp add: ascii_def)

section \<open>The codec: what is written and what is read back\<close>

lemma save_codebook_ok:
  assumes "shape1 c = TARGET_DIM" "shape0 c < 2 ^ 32"
  shows "save_codebook c path fs =
    (Inr (), fs(path \<mapsto> ascii ''VXCB'' @ le32 1 @ le32 (word_of_nat (shape0 c))
        @ le32 (word_of_nat (shape1 c)) @ concat (map le32 (flat c))))"
  using assms
  by (simp add: save_codebook_def Let_def pack_I_def FORMAT_VERSION_def TARGET_DIM_def
      MAGIC_def tobytes_def)

lemma load_codebook_parse:
  assumes "fs path = Some (ascii ''VXCB'' @ vb @ le32 ecw @ le32 dw @ payload @ rest)"
    and "length vb = 4" and "unat dw = SLOT_DIM"
    and "length payload = unat ecw * SLOT_DIM * 4"
  shows "load_codebook path fs =
    Inr \<lparr>shape0 = unat ecw, shape1 = SLOT_DIM, flat = map from_le32 (chunks4 payload)\<rparr>"
proof -
  have t: "\<And>(a::byte list) b. length a = 4 \<Longrightarrow> take 4 (a @ b) = a"
    and d: "\<And>(a::byte list) b. length a = 4 \<Longrightarrow> drop 4 (a @ b) = b"
    by simp_all
  have fb: "frombuffer payload = Inr (map from_le32 (chunks4 payload))"
    using assms(4) by (simp add: frombuffer_def)
  have len: "length (map from_le32 (chunks4 payload)) = unat ecw * SLOT_DIM"
    using assms(4) by (simp add: length_chunks4)
  have uv: "unpack_I vb = Inr (unat (from_le32 vb))"
    using assms(2) by (simp add: unpack_I_def)
  show ?thesis
    using assms(2,3) fb len
    by (simp add: load_codebook_def uv assms(1) Let_def t d length_ascii_VXCB length_le32
        unpack_I_le32 assms(4) reshape_def)
qed

text \<open>
  C3. For a centroid matrix whose column count is the fixed target dimension (and whose
  row count fits the 32-bit header field, as every matrix of at most 65536 entries does),
  \<open>save_codebook\<close> succeeds and leaves at the path a file whose bytes are the ASCII
  bytes of "VXCB", then 1, the row count and the column count as 32-bit little-endian
  integers, then every element as 4 little-endian bytes in row-major order: in all
  \<open>16 + entry_count * dim * 4\<close> bytes.
\<close>

theorem save_codebook_layout:
  assumes "shape1 c = TARGET_DIM" and "shape0 c < 2 ^ 32" and "wf_ndarray c"
  shows "\<exists>content. save_codebook c path fs = (Inr (), fs(path \<mapsto> content))
           \<and> map unat content = spec_codebook_file c
           \<and> length content = 16 + shape0 c * shape1 c * 4"
proof -
  let ?content = "ascii ''VXCB'' @ le32 1 @ le32 (word_of_nat (shape0 c))
        @ le32 (word_of_nat (shape1 c)) @ concat (map le32 (flat c))"
  have s1: "shape1 c < 2 ^ 32" using assms(1) by (simp add: TARGET_DIM_def)
  have "map unat ?content = spec_codebook_file c"
    using assms(2) s1
    by (simp add: spec_codebook_file_def map_unat_le32 unat_word_of_nat32 map_concat comp_def)
       (simp add: ascii_def)
  moreover have "length ?content = 16 + shape0 c * shape1 c * 4"
    using assms(3)
    by (simp add: length_ascii_VXCB length_le32 length_concat_le32 wf_ndarray_def)
  ultimately show ?thesis
    using save_codebook_ok [OF assms(1,2)] by blast
qed

theorem save_codebook_layout_witness:
  "\<exists>content.
      save_codebook \<lparr>shape0 = 1, shape1 = 256, flat = replicate 256 1065353216\<rparr>
        ''codebook.bin'' Map.empty = (Inr (), [''codebook.bin'' \<mapsto> content])
      \<and> map unat content =
          spec_codebook_file \<lparr>shape0 = 1, shape1 = 256, flat = replicate 256 1065353216\<rparr>
      \<and> length content = 1040"
  using save_codebook_layout
    [of "\<lparr>shape0 = 1, shape1 = 256, flat = replicate 256 1065353216\<rparr>"
      "''codebook.bin''" Map.empty]
  by (simp add: TARGET_DIM_def wf_ndarray_def)

text \<open>
  C4. Round trip: for such a matrix, \<open>save_codebook\<close> succeeds and \<open>load_codebook\<close>
  on the file it wrote returns an array with the same row count, the same column count
  and the same elements, bit for bit.
\<close>

theorem codec_round_trip:
  assumes "shape1 c = TARGET_DIM" and "shape0 c < 2 ^ 32" and "wf_ndarray c"
  shows "fst (save_codebook c path fs) = Inr ()
       \<and> load_codebook path (snd (save_codebook c path fs)) = Inr c"
proof -
  let ?fs' = "snd (save_codebook c path fs)"
  have sv: "save_codebook c path fs =
    (Inr (), fs(path \<mapsto> ascii ''VXCB'' @ le32 1 @ le32 (word_of_nat (shape0 c))
        @ le32 (word_of_nat (shape1 c)) @ concat (map le32 (flat c)) @ []))"
    using save_codebook_ok [OF assms(1,2)] by simp
  have "load_codebook path ?fs' =
    Inr \<lparr>shape0 = unat (word_of_nat (shape0 c) :: 32 word), shape1 = SLOT_DIM,
         flat = map from_le32 (chunks4 (concat (map le32 (flat c))))\<rparr>"
  proof (rule load_codebook_parse)
    show "?fs' path = Some (ascii ''VXCB'' @ le32 1 @ le32 (word_of_nat (shape0 c))
        @ le32 (word_of_nat (shape1 c)) @ concat (map le32 (flat c)) @ [])"
      by (simp add: sv)
    show "length (le32 1) = 4" by (rule length_le32)
    show "unat (word_of_nat (shape1 c) :: 32 word) = SLOT_DIM"
      using assms(1) by (simp add: unat_word_of_nat32 TARGET_DIM_def SLOT_DIM_def)
    show "length (concat (map le32 (flat c))) =
        unat (word_of_nat (shape0 c) :: 32 word) * SLOT_DIM * 4"
      using assms by (simp add: length_concat_le32 unat_word_of_nat32 wf_ndarray_def
          TARGET_DIM_def SLOT_DIM_def)
  qed
  then have "load_codebook path ?fs' = Inr c"
    using assms(1,2)
    by (simp add: unat_word_of_nat32 chunks4_concat_le32 from_le32_le32 map_idI
        TARGET_DIM_def SLOT_DIM_def)
  then show ?thesis by (simp add: sv)
qed

theorem codec_round_trip_witness:
  "fst (save_codebook \<lparr>shape0 = 1, shape1 = 256, flat = replicate 256 1065353216\<rparr>
          ''codebook.bin'' Map.empty) = Inr ()
   \<and> load_codebook ''codebook.bin''
        (snd (save_codebook \<lparr>shape0 = 1, shape1 = 256, flat = replicate 256 1065353216\<rparr>
               ''codebook.bin'' Map.empty))
      = Inr \<lparr>shape0 = 1, shape1 = 256, flat = replicate 256 1065353216\<rparr>"
  using codec_round_trip
    [of "\<lparr>shape0 = 1, shape1 = 256, flat = replicate 256 1065353216\<rparr>"
      "''codebook.bin''" Map.empty]
  by (simp add: TARGET_DIM_def wf_ndarray_def)

text \<open>
  C7. When the column count differs from the fixed dimension 256, \<open>save_codebook\<close>
  fails on its assertion and the file system is unchanged; when the column count is 256
  the assertion error is not raised.
\<close>

theorem save_codebook_dimension_check:
  "(shape1 c \<noteq> TARGET_DIM \<longrightarrow> save_codebook c path fs = (Inl AssertionError, fs))
   \<and> (shape1 c = TARGET_DIM \<longrightarrow> fst (save_codebook c path fs) \<noteq> Inl AssertionError)"
  by (simp add: save_codebook_def Let_def pack_I_def split: sum.splits)

theorem save_codebook_dimension_check_witness:
  "save_codebook \<lparr>shape0 = 1, shape1 = 3, flat = [0, 0, 0]\<rparr> ''codebook.bin'' Map.empty
     = (Inl AssertionError, Map.empty)
   \<and> fst (save_codebook \<lparr>shape0 = 0, shape1 = 256, flat = []\<rparr> ''codebook.bin'' Map.empty)
       \<noteq> Inl AssertionError"
  using save_codebook_dimension_check
      [of "\<lparr>shape0 = 1, shape1 = 3, flat = [0, 0, 0]\<rparr>" "''codebook.bin''" Map.empty]
    save_codebook_dimension_check
      [of "\<lparr>shape0 = 0, shape1 = 256, flat = []\<rparr>" "''codebook.bin''" Map.empty]
  by (simp add: TARGET_DIM_def)

text \<open>
  C9. \<open>load_codebook\<close> does not validate the version field: a file that starts with
  "VXCB", carries any four bytes as its version, then the entry count, the dimension 256
  and at least \<open>entry_count * 256 * 4\<close> payload bytes is accepted, and what is decoded
  does not depend on the version bytes.
\<close>

theorem load_codebook_ignores_version:
  assumes "fs path = Some (ascii ''VXCB'' @ vb @ le32 (word_of_nat ec)
              @ le32 (word_of_nat SLOT_DIM) @ payload @ rest)"
    and "length vb = 4" and "ec < 2 ^ 32" and "length payload = ec * SLOT_DIM * 4"
  shows "load_codebook path fs =
    Inr \<lparr>shape0 = ec, shape1 = SLOT_DIM, flat = map from_le32 (chunks4 payload)\<rparr>"
  using load_codebook_parse [where fs = fs and path = path and vb = vb
      and ecw = "word_of_nat ec" and dw = "word_of_nat SLOT_DIM" and payload = payload
      and rest = rest] assms
  by (simp add: unat_word_of_nat32 SLOT_DIM_def)

theorem load_codebook_ignores_version_witness:
  "load_codebook ''codebook.bin''
     [''codebook.bin'' \<mapsto> ascii ''VXCB'' @ [7, 0, 0, 255] @ le32 (word_of_nat 1)
         @ le32 (word_of_nat SLOT_DIM) @ replicate 1024 0 @ []]
   = Inr \<lparr>shape0 = 1, shape1 = SLOT_DIM, flat = map from_le32 (chunks4 (replicate 1024 0))\<rparr>"
  using load_codebook_ignores_version
    [of "[''codebook.bin'' \<mapsto> ascii ''VXCB'' @ [7, 0, 0, 255] @ le32 (word_of_nat 1)
         @ le32 (word_of_nat SLOT_DIM) @ replicate 1024 0 @ []]"
      "''codebook.bin''" "[7, 0, 0, 255]" 1 "replicate 1024 0" "[]"]
  by (simp add: SLOT_DIM_def)

section \<open>The clusterer: initialisation and the convergence policy\<close>

text \<open>
  C1. The claim includes batch sizes larger than the number of vectors. On three
  vectors with \<open>k = 2\<close> and \<open>batch_size = 4\<close> the initialisation asks
  \<^verbatim>\<open>rng.choice\<close> for \<open>max k batch_size = 4\<close> distinct indices out of 3, which raises
  \<^verbatim>\<open>ValueError\<close>, whatever the libraries compute: no centroid is returned.
\<close>

theorem kmeans_cluster_large_batch:
  "kmeans_cluster lib [r1, r2, r3] 2 4 1 = Inl ValueError"
  by (simp add: kmeans_cluster_def kmeans_run_def kmeans_init_def choice_def Let_def)











section \<open>The reader: which lines are skipped\<close>




















end
